theory Spec2Isabelle
  imports Complex_Main "HOL-Library.AList" "HOL-Library.Sublist"
begin

section \<open>Python values, dictionaries and strings\<close>

text \<open>
  The scrapers pass JSON-like values around: the items returned by the hosted actors, the
  dictionaries built from them, and the cells of the pandas tables. A value is \<open>None\<close>
  (which also stands for a missing cell, NaN), a boolean, an integer, a float (modelled as a
  real number, without rounding), a string, a list or a dictionary. A dictionary is an
  association list in insertion order, read with \<open>map_of\<close>.

  Strings are lists of characters with codes 0 to 255.
\<close>

datatype py_error = AttributeError | TypeError | KeyError | IndexError | ZeroDivisionError
  | ServiceError

datatype pyval = PNone | PBool bool | PInt int | PFloat real | PStr string
  | PList "pyval list" | PDict "(string \<times> pyval) list"

type_synonym pydict = "(string \<times> pyval) list"

text \<open>
  Two library functions are not modelled further and are parameters of everything that uses
  them: \<open>str()\<close> of a float, list or dictionary, and \<open>pd.to_numeric(errors="coerce")\<close> of
  a string, list or dictionary cell (\<open>None\<close> is NaN, the coerced value).
\<close>

record pylib =
  str_other :: "pyval \<Rightarrow> string"
  numeric_other :: "pyval \<Rightarrow> real option"

fun truthy :: "pyval \<Rightarrow> bool" where
  "truthy PNone = False"
| "truthy (PBool b) = b"
| "truthy (PInt i) = (i \<noteq> 0)"
| "truthy (PFloat r) = (r \<noteq> 0)"
| "truthy (PStr s) = (s \<noteq> [])"
| "truthy (PList xs) = (xs \<noteq> [])"
| "truthy (PDict d) = (d \<noteq> [])"

definition py_or :: "pyval \<Rightarrow> pyval \<Rightarrow> pyval" where
  "py_or a b = (if truthy a then a else b)"

definition pget :: "pydict \<Rightarrow> string \<Rightarrow> pyval" where
  \<comment> \<open>\<open>d.get(k)\<close>\<close>
  "pget d k = (case map_of d k of None \<Rightarrow> PNone | Some v \<Rightarrow> v)"

definition pget_d :: "pydict \<Rightarrow> string \<Rightarrow> pyval \<Rightarrow> pyval" where
  \<comment> \<open>\<open>d.get(k, default)\<close>\<close>
  "pget_d d k dflt = (case map_of d k of None \<Rightarrow> dflt | Some v \<Rightarrow> v)"

definition py_merge :: "pydict \<Rightarrow> pydict \<Rightarrow> pydict" where
  \<comment> \<open>\<open>{**a, **b}\<close>: the keys of \<open>a\<close> in order, overwritten by \<open>b\<close>, then the new keys of \<open>b\<close>\<close>
  "py_merge a b = fold (\<lambda>(k, v). AList.update k v) b a"

definition digit_char :: "nat \<Rightarrow> char" where
  "digit_char n = ''0123456789'' ! n"

fun digits_of :: "nat \<Rightarrow> string" where
  "digits_of n = (if n < 10 then [digit_char n] else digits_of (n div 10) @ [digit_char (n mod 10)])"

declare digits_of.simps [simp del]

definition show_int :: "int \<Rightarrow> string" where
  "show_int i = (if i < 0 then CHR ''-'' # digits_of (nat (- i)) else digits_of (nat i))"

definition py_str :: "pylib \<Rightarrow> pyval \<Rightarrow> string" where
  \<comment> \<open>\<open>str(v)\<close>\<close>
  "py_str L v = (case v of
       PNone \<Rightarrow> ''None''
     | PBool b \<Rightarrow> (if b then ''True'' else ''False'')
     | PInt i \<Rightarrow> show_int i
     | PStr s \<Rightarrow> s
     | _ \<Rightarrow> str_other L v)"

definition is_space :: "char \<Rightarrow> bool" where
  \<comment> \<open>\<open>str.isspace\<close>, which \<open>str.split()\<close>, \<open>str.strip()\<close> and the regex class \<open>\s\<close> all use\<close>
  "is_space c = (c \<in> set [CHR 0x09, CHR 0x0A, CHR 0x0B, CHR 0x0C, CHR 0x0D,
       CHR 0x1C, CHR 0x1D, CHR 0x1E, CHR 0x1F, CHR 0x20, CHR 0x85, CHR 0xA0])"

definition NUL :: char where
  "NUL = CHR 0x00"

function split_ws :: "string \<Rightarrow> string list" where
  \<comment> \<open>\<open>s.split()\<close>: the maximal runs of non-whitespace characters\<close>
  "split_ws s = (let t = dropWhile is_space s in
     if t = [] then []
     else takeWhile (\<lambda>c. \<not> is_space c) t # split_ws (dropWhile (\<lambda>c. \<not> is_space c) t))"
  by pat_completeness auto
termination
proof (relation "measure length", goal_cases)
  case 1
  show ?case by simp
next
  case (2 s t)
  then obtain c cs where t: "t = c # cs" and c: "\<not> is_space c"
    by (metis dropWhile_eq_Cons_conv neq_Nil_conv)
  have "length (dropWhile (\<lambda>c. \<not> is_space c) t) \<le> length cs"
    using t c by (simp add: length_dropWhile_le)
  moreover have "length t \<le> length s"
    using 2 by (simp add: length_dropWhile_le)
  ultimately show ?case using t by simp
qed

declare split_ws.simps [simp del]

fun join_space :: "string list \<Rightarrow> string" where
  \<comment> \<open>\<open>" ".join(ws)\<close>\<close>
  "join_space [] = []"
| "join_space [w] = w"
| "join_space (w # v # ws) = w @ CHR 0x20 # join_space (v # ws)"

fun replace_ne :: "string \<Rightarrow> string \<Rightarrow> string \<Rightarrow> string" where
  "replace_ne old new [] = []"
| "replace_ne old new (c # cs) =
     (if prefix old (c # cs) then new @ replace_ne old new (drop (length old - 1) cs)
      else c # replace_ne old new cs)"

definition py_replace :: "string \<Rightarrow> string \<Rightarrow> string \<Rightarrow> string" where
  \<comment> \<open>\<open>s.replace(old, new)\<close>: the occurrences of \<open>old\<close> from left to right, not overlapping\<close>
  "py_replace old new s =
     (if old = [] then new @ concat (map (\<lambda>c. c # new) s) else replace_ne old new s)"

definition py_strip :: "string \<Rightarrow> string" where
  \<comment> \<open>\<open>s.strip()\<close>\<close>
  "py_strip s = rev (dropWhile is_space (rev (dropWhile is_space s)))"

function collapse_ws :: "string \<Rightarrow> string" where
  \<comment> \<open>\<open>re.sub(r"\s+", " ", s)\<close>: every maximal run of whitespace becomes one space\<close>
  "collapse_ws [] = []"
| "collapse_ws (c # cs) =
     (if is_space c then CHR 0x20 # collapse_ws (dropWhile is_space cs)
      else c # collapse_ws cs)"
  by pat_completeness auto
termination
  by (relation "measure length") (auto simp: length_dropWhile_le less_Suc_eq_le)


section \<open>Tables\<close>

text \<open>
  A pandas table built with \<open>pd.DataFrame(rows)\<close> from a list of dictionaries is modelled by
  that list. Its columns are the keys that occur in some row; a row without the key holds a
  missing cell. Assigning a column gives every row the key.
\<close>

type_synonym dataframe = "pydict list"

definition has_column :: "dataframe \<Rightarrow> string \<Rightarrow> bool" where
  \<comment> \<open>\<open>c in df.columns\<close>\<close>
  "has_column df c = (c \<in> set (concat (map (map fst) df)))"

definition cell :: "pydict \<Rightarrow> string \<Rightarrow> pyval" where
  "cell r c = pget r c"

definition set_column :: "string \<Rightarrow> (pydict \<Rightarrow> pyval) \<Rightarrow> dataframe \<Rightarrow> dataframe" where
  \<comment> \<open>\<open>df[c] = ...\<close>, the new cell computed from the row\<close>
  "set_column c f df = map (\<lambda>r. AList.update c (f r) r) df"

definition set_column_list :: "string \<Rightarrow> pyval list \<Rightarrow> dataframe \<Rightarrow> dataframe" where
  \<comment> \<open>\<open>df[c] = [v0, v1, ...]\<close>, a list as long as the table\<close>
  "set_column_list c vs df = map (\<lambda>(r, v). AList.update c v r) (zip df vs)"

definition row_key :: "string list \<Rightarrow> pydict \<Rightarrow> pyval list" where
  "row_key cols r = map (cell r) cols"

fun drop_dups_from :: "string list \<Rightarrow> pyval list list \<Rightarrow> dataframe \<Rightarrow> dataframe" where
  "drop_dups_from cols seen [] = []"
| "drop_dups_from cols seen (r # rs) =
     (if row_key cols r \<in> set seen then drop_dups_from cols seen rs
      else r # drop_dups_from cols (row_key cols r # seen) rs)"

definition drop_duplicates :: "string list \<Rightarrow> dataframe \<Rightarrow> dataframe" where
  \<comment> \<open>\<open>df.drop_duplicates(subset=..., keep="first")\<close>: a row is dropped when an earlier row has
      the same cells in the subset columns (missing cells are equal to each other)\<close>
  "drop_duplicates cols df = drop_dups_from cols [] df"

definition fillna_str :: "string \<Rightarrow> pyval \<Rightarrow> pyval" where
  \<comment> \<open>\<open>.fillna(s)\<close> on one cell\<close>
  "fillna_str s v = (if v = PNone then PStr s else v)"

definition to_numeric :: "pylib \<Rightarrow> pyval \<Rightarrow> real option" where
  \<comment> \<open>\<open>pd.to_numeric(..., errors="coerce")\<close> on one cell; \<open>None\<close> is NaN\<close>
  "to_numeric L v = (case v of
       PNone \<Rightarrow> None
     | PBool b \<Rightarrow> Some (if b then 1 else 0)
     | PInt i \<Rightarrow> Some (real_of_int i)
     | PFloat r \<Rightarrow> Some r
     | _ \<Rightarrow> numeric_other L v)"

definition fillna0 :: "real option \<Rightarrow> real" where
  "fillna0 x = (case x of None \<Rightarrow> 0 | Some r \<Rightarrow> r)"

definition astype_int :: "real \<Rightarrow> int" where
  \<comment> \<open>\<open>.astype(int)\<close> truncates toward zero\<close>
  "astype_int r = (if 0 \<le> r then \<lfloor>r\<rfloor> else \<lceil>r\<rceil>)"

definition num_val :: "pyval \<Rightarrow> real option" where
  "num_val v = (case v of PInt i \<Rightarrow> Some (real_of_int i) | PFloat r \<Rightarrow> Some r | _ \<Rightarrow> None)"

definition py_add :: "pyval \<Rightarrow> pyval \<Rightarrow> pyval" where
  \<comment> \<open>\<open>+\<close> on the cells of two numeric columns; anything with a missing cell is missing\<close>
  "py_add a b = (case (a, b) of
       (PInt x, PInt y) \<Rightarrow> PInt (x + y)
     | _ \<Rightarrow> (case (num_val a, num_val b) of
                (Some x, Some y) \<Rightarrow> PFloat (x + y)
              | _ \<Rightarrow> PNone))"

definition py_gt :: "pyval \<Rightarrow> pyval \<Rightarrow> bool" where
  \<comment> \<open>\<open>a > b\<close> on numeric cells; a comparison with a missing cell is false\<close>
  "py_gt a b = (case (num_val a, num_val b) of (Some x, Some y) \<Rightarrow> y < x | _ \<Rightarrow> False)"

definition py_truediv :: "pyval \<Rightarrow> pyval \<Rightarrow> py_error + pyval" where
  \<comment> \<open>\<open>a / b\<close>: the division is an error when the denominator is zero\<close>
  "py_truediv a b = (case (num_val a, num_val b) of
       (Some x, Some y) \<Rightarrow> (if y = 0 then Inl ZeroDivisionError else Inr (PFloat (x / y)))
     | _ \<Rightarrow> Inl TypeError)"

fun idxmax_from :: "string \<times> pyval \<Rightarrow> (string \<times> pyval) list \<Rightarrow> string" where
  "idxmax_from best [] = fst best"
| "idxmax_from best (x # xs) =
     (if py_gt (snd x) (snd best) then idxmax_from x xs else idxmax_from best xs)"

definition idxmax :: "string list \<Rightarrow> pydict \<Rightarrow> string" where
  \<comment> \<open>\<open>df[cols].idxmax(axis=1)\<close> on one row: the first column that holds the row's maximum\<close>
  "idxmax cols r = (case cols of [] \<Rightarrow> [] | c # cs \<Rightarrow>
       idxmax_from (c, cell r c) (map (\<lambda>c. (c, cell r c)) cs))"

fun apply_rows :: "(pydict \<Rightarrow> py_error + pyval) \<Rightarrow> dataframe \<Rightarrow> py_error + pyval list" where
  \<comment> \<open>\<open>df.apply(f, axis=1)\<close>: the first row on which \<open>f\<close> raises ends the call\<close>
  "apply_rows f [] = Inr []"
| "apply_rows f (r # rs) = (case f r of
       Inl e \<Rightarrow> Inl e
     | Inr v \<Rightarrow> (case apply_rows f rs of Inl e \<Rightarrow> Inl e | Inr vs \<Rightarrow> Inr (v # vs)))"

section \<open>The Facebook pipeline: flattening and cleaning\<close>

text \<open>
  A post is the dictionary that \<open>_scrape_posts_with_reactions\<close> builds, with the list of comment
  dictionaries that \<open>scrape_from_url\<close> stores under \<open>"comments"\<close>. A post without the key and a
  post with an empty list take the same branch of \<open>if post.get("comments")\<close>.
\<close>

record fb_post =
  post_fields :: pydict
  post_comments :: "pydict list"

definition flatten_post :: "fb_post \<Rightarrow> pydict" where
  "flatten_post post = (let p = post_fields post in
     [(''post_id'', pget_d p ''post_id'' (PStr [])),
      (''post_url'', pget_d p ''url'' (PStr [])),
      (''post_type'', pget_d p ''type'' (PStr [])),
      (''post_message'', pget_d p ''message'' (PStr [])),
      (''post_timestamp'', pget_d p ''timestamp'' (PStr [])),
      (''post_author_id'', pget_d p ''author_id'' (PStr [])),
      (''post_author_name'', pget_d p ''author_name'' (PStr [])),
      (''post_author_url'', pget_d p ''author_url'' (PStr [])),
      (''emoji_like'', pget_d p ''emoji_like'' (PInt 0)),
      (''emoji_love'', pget_d p ''emoji_love'' (PInt 0)),
      (''emoji_haha'', pget_d p ''emoji_haha'' (PInt 0)),
      (''emoji_wow'', pget_d p ''emoji_wow'' (PInt 0)),
      (''emoji_sad'', pget_d p ''emoji_sad'' (PInt 0)),
      (''emoji_angry'', pget_d p ''emoji_angry'' (PInt 0)),
      (''emoji_care'', pget_d p ''emoji_care'' (PInt 0)),
      (''post_total_reactions'', pget_d p ''total_reactions'' (PInt 0)),
      (''post_total_comments'', pget_d p ''total_comments'' (PInt 0)),
      (''post_total_shares'', pget_d p ''total_shares'' (PInt 0)),
      (''post_has_image'', PInt (if truthy (pget p ''image_url'') then 1 else 0)),
      (''post_has_video'', PInt (if truthy (pget p ''video_url'') then 1 else 0)),
      (''post_has_link'', PInt (if truthy (pget p ''external_url'') then 1 else 0))])"

definition flatten_comment :: "pydict \<Rightarrow> pydict" where
  "flatten_comment comment =
     [(''comment_id'', pget_d comment ''comment_id'' (PStr [])),
      (''comment_text'', pget_d comment ''text'' (PStr [])),
      (''comment_timestamp'', pget_d comment ''timestamp'' (PStr [])),
      (''comment_author_id'', pget_d comment ''author_id'' (PStr [])),
      (''comment_author_name'', pget_d comment ''author_name'' (PStr [])),
      (''comment_author_url'', pget_d comment ''author_url'' (PStr [])),
      (''comment_reactions'', pget_d comment ''reactions_count'' (PInt 0)),
      (''comment_replies'', pget_d comment ''replies_count'' (PInt 0))]"

definition empty_comment :: pydict where
  "empty_comment =
     [(''comment_id'', PStr []),
      (''comment_text'', PStr []),
      (''comment_timestamp'', PStr []),
      (''comment_author_id'', PStr []),
      (''comment_author_name'', PStr []),
      (''comment_author_url'', PStr []),
      (''comment_reactions'', PInt 0),
      (''comment_replies'', PInt 0)]"

definition clean_row_text :: "pylib \<Rightarrow> pyval \<Rightarrow> string" where
  \<comment> \<open>\<open>" ".join(str(v).split()).replace("\x00", "")\<close>\<close>
  "clean_row_text L v = py_replace [NUL] [] (join_space (split_ws (py_str L v)))"

definition clean_row_field :: "pylib \<Rightarrow> string \<Rightarrow> pydict \<Rightarrow> pydict" where
  \<comment> \<open>\<open>if field in row and row[field]: row[field] = ...\<close>\<close>
  "clean_row_field L field row = (case map_of row field of
       None \<Rightarrow> row
     | Some v \<Rightarrow> (if truthy v then AList.update field (PStr (clean_row_text L v)) row else row))"

definition clean_row :: "pylib \<Rightarrow> pydict \<Rightarrow> pydict" where
  "clean_row L row = fold (clean_row_field L) [''post_message'', ''comment_text''] row"

definition text_cols :: "string list" where
  "text_cols = [''post_message'', ''comment_text'', ''post_author_name'', ''comment_author_name'']"

definition clean_df_text :: "pylib \<Rightarrow> pyval \<Rightarrow> pyval" where
  \<comment> \<open>\<open>.fillna("").astype(str).str.replace("\x00", "").str.replace(r"\s+", " ").str.strip()\<close>
      on one cell\<close>
  "clean_df_text L v =
     PStr (py_strip (collapse_ws (py_replace [NUL] [] (py_str L (fillna_str [] v)))))"

definition clean_column :: "pylib \<Rightarrow> string \<Rightarrow> dataframe \<Rightarrow> dataframe" where
  \<comment> \<open>the body of the loop: \<open>if col in df.columns: df[col] = ...\<close>\<close>
  "clean_column L col df =
     (if has_column df col then set_column col (\<lambda>r. clean_df_text L (cell r col)) df else df)"

definition clean_dataframe :: "pylib \<Rightarrow> dataframe \<Rightarrow> dataframe" where
  "clean_dataframe L df = fold (clean_column L) text_cols df"

definition post_rows :: "pylib \<Rightarrow> fb_post \<Rightarrow> pydict list" where
  \<comment> \<open>the body of the loop over the posts in \<open>_process_and_save_final\<close>\<close>
  "post_rows L post =
     (if post_comments post \<noteq> []
      then map (\<lambda>comment. clean_row L (py_merge (flatten_post post) (flatten_comment comment)))
             (post_comments post)
      else [clean_row L (py_merge (flatten_post post) empty_comment)])"

definition flatten_rows :: "pylib \<Rightarrow> fb_post list \<Rightarrow> pydict list" where
  \<comment> \<open>the list \<open>rows\<close> of \<open>_process_and_save_final\<close>, before the table is built\<close>
  "flatten_rows L data = concat (map (post_rows L) data)"

section \<open>The Facebook pipeline: derived columns\<close>

definition emoji_cols :: "string list" where
  "emoji_cols = [''emoji_like'', ''emoji_love'', ''emoji_haha'', ''emoji_wow'', ''emoji_sad'',
     ''emoji_angry'', ''emoji_care'']"

definition total_cols :: "string list" where
  "total_cols = [''post_total_reactions'', ''post_total_comments'', ''post_total_shares'']"

definition coerce_emoji :: "pylib \<Rightarrow> string \<Rightarrow> dataframe \<Rightarrow> dataframe" where
  "coerce_emoji L c df =
     (if \<not> has_column df c then set_column c (\<lambda>r. PInt 0) df
      else set_column c (\<lambda>r. PInt (astype_int (fillna0 (to_numeric L (cell r c))))) df)"

definition coerce_total :: "pylib \<Rightarrow> string \<Rightarrow> dataframe \<Rightarrow> dataframe" where
  "coerce_total L c df =
     (if \<not> has_column df c then set_column c (\<lambda>r. PInt 0) df
      else set_column c (\<lambda>r. PFloat (fillna0 (to_numeric L (cell r c)))) df)"

definition sentiment_ratio :: "pydict \<Rightarrow> py_error + pyval" where
  \<comment> \<open>the lambda given to \<open>df.apply\<close>\<close>
  "sentiment_ratio x =
     (if py_gt (cell x ''post_total_reactions'') (PInt 0)
      then py_truediv (cell x ''positive_reactions'') (cell x ''post_total_reactions'')
      else Inr (PInt 0))"

definition derive_columns :: "pylib \<Rightarrow> dataframe \<Rightarrow> dataframe" where
  \<comment> \<open>the column assignments of \<open>_add_derived_columns\<close> before \<open>sentiment_ratio\<close>\<close>
  "derive_columns L df =
     (let df = set_column ''post_message_length''
                 (\<lambda>r. PInt (int (length (py_str L (cell r ''post_message''))))) df;
          df = set_column ''comment_text_length''
                 (\<lambda>r. PInt (int (length (py_str L (cell r ''comment_text''))))) df;
          df = set_column ''post_engagement_total''
                 (\<lambda>r. py_add (py_add (cell r ''post_total_reactions'')
                                       (cell r ''post_total_comments''))
                               (cell r ''post_total_shares'')) df;
          df = set_column ''dominant_emotion''
                 (\<lambda>r. PStr (py_replace ''emoji_'' [] (idxmax emoji_cols r))) df;
          df = set_column ''positive_reactions''
                 (\<lambda>r. py_add (py_add (py_add (py_add (cell r ''emoji_like'')
                                                       (cell r ''emoji_love''))
                                               (cell r ''emoji_haha''))
                                       (cell r ''emoji_wow''))
                               (cell r ''emoji_care'')) df;
          df = set_column ''negative_reactions''
                 (\<lambda>r. py_add (cell r ''emoji_sad'') (cell r ''emoji_angry'')) df
      in df)"

definition add_derived_columns :: "pylib \<Rightarrow> dataframe \<Rightarrow> py_error + dataframe" where
  \<comment> \<open>\<open>df["post_message"]\<close> and \<open>df["comment_text"]\<close> raise \<open>KeyError\<close> on a table without
      the column\<close>
  "add_derived_columns L df =
     (let df = fold (coerce_emoji L) emoji_cols df;
          df = fold (coerce_total L) total_cols df
      in if \<not> has_column df ''post_message'' \<or> \<not> has_column df ''comment_text''
         then Inl KeyError
         else (let df = derive_columns L df in
               case apply_rows sentiment_ratio df of
                 Inl e \<Rightarrow> Inl e
               | Inr vs \<Rightarrow> Inr (set_column_list ''sentiment_ratio'' vs df)))"

section \<open>Sentiment analysis\<close>

text \<open>
  The classifier is the pretrained model behind \<open>transformers.pipeline\<close>: called on a text,
  it raises or returns a list of results. It is a parameter. Every function that may call it
  returns, next to its result, the list of the texts it passed to the classifier.
\<close>

record sentiment =
  label :: string
  score :: real

type_synonym classifier = "string \<Rightarrow> py_error + sentiment list"

definition neutral :: sentiment where
  \<comment> \<open>\<open>{"label": "NEUTRAL", "score": 0.0}\<close>\<close>
  "neutral = \<lparr>label = ''NEUTRAL'', score = 0\<rparr>"

definition classify :: "classifier \<Rightarrow> string \<Rightarrow> sentiment" where
  \<comment> \<open>\<open>try: result = self.analyzer(text[:512], truncation=True)[0]\<close>, with the fallback of
      \<open>except Exception\<close>; an empty result list raises \<open>IndexError\<close> inside the \<open>try\<close>\<close>
  "classify clf text = (case clf (take 512 text) of
       Inl e \<Rightarrow> neutral
     | Inr [] \<Rightarrow> neutral
     | Inr (result # _) \<Rightarrow> result)"

definition fb_analyze_text :: "classifier \<Rightarrow> string \<Rightarrow> sentiment \<times> string list" where
  \<comment> \<open>the body of the two loops of \<open>SentimentAnalyzer.analyze_posts_and_comments\<close>\<close>
  "fb_analyze_text clf text =
     (if py_strip text = [] \<or> text = ''nan'' then (neutral, [])
      else (classify clf text, [take 512 text]))"

definition analyze_text :: "pylib \<Rightarrow> classifier \<Rightarrow> pyval \<Rightarrow> sentiment \<times> string list" where
  \<comment> \<open>the body of the loop of \<open>analyze_text_batch\<close>, the same in \<open>InstagramSentimentAnalyzer\<close>
      and \<open>TwitterSentimentAnalyzer\<close>; \<open>pd.isna\<close> holds of the missing cell\<close>
  "analyze_text L clf text =
     (if text = PNone \<or> py_strip (py_str L text) = [] \<or> py_str L text = ''nan''
      then (neutral, [])
      else (classify clf (py_str L text), [take 512 (py_str L text)]))"

definition analyze_text_batch ::
  "pylib \<Rightarrow> classifier \<Rightarrow> pyval list \<Rightarrow> sentiment list \<times> string list" where
  "analyze_text_batch L clf texts =
     (let rs = map (analyze_text L clf) texts in (map fst rs, concat (map snd rs)))"

definition df_empty :: "dataframe \<Rightarrow> bool" where
  \<comment> \<open>\<open>df.empty\<close>: no row or no column\<close>
  "df_empty df = (concat (map (map fst) df) = [])"

definition column_texts :: "pylib \<Rightarrow> string \<Rightarrow> dataframe \<Rightarrow> string list" where
  \<comment> \<open>\<open>df[col].fillna("").astype(str).tolist()\<close>\<close>
  "column_texts L col df = map (\<lambda>r. py_str L (fillna_str [] (cell r col))) df"

definition fb_analyze_column ::
  "classifier \<Rightarrow> string list \<Rightarrow> sentiment list \<times> string list" where
  \<comment> \<open>one loop of \<open>analyze_posts_and_comments\<close> over the texts of a column\<close>
  "fb_analyze_column clf texts =
     (let rs = map (fb_analyze_text clf) texts in (map fst rs, concat (map snd rs)))"

definition set_sentiment :: "string \<Rightarrow> string \<Rightarrow> sentiment list \<Rightarrow> dataframe \<Rightarrow> dataframe" where
  \<comment> \<open>\<open>df[lc] = [s["label"] for s in results]; df[sc] = [s["score"] for s in results]\<close>\<close>
  "set_sentiment lc sc results df =
     set_column_list sc (map (\<lambda>s. PFloat (score s)) results)
       (set_column_list lc (map (\<lambda>s. PStr (label s)) results) df)"

definition analyze_posts_and_comments ::
  "pylib \<Rightarrow> classifier \<Rightarrow> dataframe \<Rightarrow> string \<Rightarrow> string \<Rightarrow> dataframe \<times> py_error option" where
  \<comment> \<open>The table is changed in place: the result is the table as the call leaves it and the
      exception it raised, if any (\<open>df[col]\<close> raises \<open>KeyError\<close> on a table without the
      column).\<close>
  "analyze_posts_and_comments L clf df post_col comment_col =
     (if df_empty df then (df, None)
      else if \<not> has_column df post_col then (df, Some KeyError)
      else (let post_results = fst (fb_analyze_column clf (column_texts L post_col df));
                df = set_sentiment ''post_sentiment_label'' ''post_sentiment_score'' post_results df
            in if \<not> has_column df comment_col then (df, Some KeyError)
               else (let comment_results =
                           fst (fb_analyze_column clf (column_texts L comment_col df));
                         df = set_sentiment ''comment_sentiment_label''
                                ''comment_sentiment_score'' comment_results df
                     in (df, None))))"

section \<open>The Facebook pipeline: the final table\<close>

text \<open>
  \<open>_process_and_save_final\<close> returns the path of the CSV file it wrote, or \<open>None\<close>. The model
  returns the table written to that file. The analyzer is \<open>None\<close> when the constructor
  \<open>SentimentAnalyzer()\<close> raises (the model cannot be loaded); the pipeline then goes on without
  the sentiment columns.
\<close>

definition fb_key :: "string list" where
  "fb_key = [''post_id'', ''comment_id'']"

definition fb_process_and_save_final ::
  "pylib \<Rightarrow> classifier option \<Rightarrow> fb_post list \<Rightarrow> dataframe option" where
  "fb_process_and_save_final L analyzer data =
     (let rows = flatten_rows L data in
      if rows = [] then None
      else (let df = clean_dataframe L rows;
                df = drop_duplicates fb_key df
            in case add_derived_columns L df of
                 Inl e \<Rightarrow> None
               | Inr df \<Rightarrow>
                   Some (case analyzer of
                           None \<Rightarrow> df
                         | Some clf \<Rightarrow>
                             fst (analyze_posts_and_comments L clf df
                                    ''post_message'' ''comment_text''))))"

section \<open>The scraping service and the actor helpers\<close>

text \<open>
  The hosted service is outside the program. A client is a script of what the service does:
  the outcome of the \<open>n\<close>-th call \<open>client.actor(id).call(run_input=...)\<close>, which raises or
  returns the run (a dictionary, or \<open>None\<close>), and the outcome of the \<open>n\<close>-th
  \<open>client.dataset(id).iterate_items()\<close>, which raises or yields the items. The client counts
  the calls made so far, so that a helper returns the client it leaves behind.
\<close>

datatype call_outcome = CallRaises | CallReturns "pydict option"

datatype iter_outcome = IterRaises | IterYields "pydict list"

record client =
  call_script :: "nat \<Rightarrow> string \<Rightarrow> pydict \<Rightarrow> call_outcome"
  iter_script :: "nat \<Rightarrow> pyval \<Rightarrow> iter_outcome"
  n_calls :: nat
  n_iters :: nat

definition actor_call :: "client \<Rightarrow> string \<Rightarrow> pydict \<Rightarrow> call_outcome \<times> client" where
  "actor_call cl actor_id run_input =
     (call_script cl (n_calls cl) actor_id run_input, cl\<lparr>n_calls := Suc (n_calls cl)\<rparr>)"

definition iterate_items :: "client \<Rightarrow> pyval \<Rightarrow> iter_outcome \<times> client" where
  "iterate_items cl dataset_id =
     (iter_script cl (n_iters cl) dataset_id, cl\<lparr>n_iters := Suc (n_iters cl)\<rparr>)"

subsection \<open>Facebook: \<open>_scrape_comments\<close>\<close>







subsection \<open>Instagram: \<open>_run_apify_actor\<close>\<close>

definition try_actor :: "client \<Rightarrow> string \<Rightarrow> pydict \<Rightarrow> pydict list option \<times> client" where
  \<comment> \<open>the body of the \<open>try\<close>: \<open>Some\<close> of what it returns, or \<open>None\<close> when it raises. All of
      it is inside the \<open>try\<close>, also \<open>run.get\<close> on a run that is \<open>None\<close>.\<close>
  "try_actor cl actor_id run_input =
     (case actor_call cl actor_id run_input of
        (CallRaises, cl1) \<Rightarrow> (None, cl1)
      | (CallReturns None, cl1) \<Rightarrow> (None, cl1)
      | (CallReturns (Some run), cl1) \<Rightarrow>
          (if \<not> truthy (pget run ''defaultDatasetId'') then (Some [], cl1)
           else (case iterate_items cl1 (pget run ''defaultDatasetId'') of
                   (IterRaises, cl2) \<Rightarrow> (None, cl2)
                 | (IterYields items, cl2) \<Rightarrow> (Some items, cl2))))"

fun run_attempts ::
  "client \<Rightarrow> string \<Rightarrow> pydict \<Rightarrow> nat list \<Rightarrow> pydict list \<times> client" where
  \<comment> \<open>the loop \<open>for attempt in ...\<close>, with \<open>attempts = 3\<close> in the handler\<close>
  "run_attempts cl actor_id run_input [] = ([], cl)"
| "run_attempts cl actor_id run_input (attempt # rest) =
     (case try_actor cl actor_id run_input of
        (Some items, cl1) \<Rightarrow> (items, cl1)
      | (None, cl1) \<Rightarrow>
          (if attempt = 3 then ([], cl1) else run_attempts cl1 actor_id run_input rest))"

definition run_apify_actor :: "client \<Rightarrow> string \<Rightarrow> pydict \<Rightarrow> pydict list \<times> client" where
  \<comment> \<open>\<open>attempts = 3; for attempt in range(1, attempts + 1): ...\<close>\<close>
  "run_apify_actor cl actor_id run_input = run_attempts cl actor_id run_input [1, 2, 3]"

subsection \<open>Twitter: \<open>_run_actor_and_get_items\<close>\<close>

definition run_actor_and_get_items ::
  "client \<Rightarrow> string \<Rightarrow> pydict \<Rightarrow> (py_error + pydict list) \<times> client" where
  \<comment> \<open>\<open>run.get("defaultDatasetId")\<close> stands between the two \<open>try\<close> blocks: on a run that is
      \<open>None\<close> it raises \<open>AttributeError\<close>, which nothing catches\<close>
  "run_actor_and_get_items cl actor_id run_input =
     (case actor_call cl actor_id run_input of
        (CallRaises, cl1) \<Rightarrow> (Inr [], cl1)
      | (CallReturns None, cl1) \<Rightarrow> (Inl AttributeError, cl1)
      | (CallReturns (Some run), cl1) \<Rightarrow>
          (if \<not> truthy (pget run ''defaultDatasetId'') then (Inr [], cl1)
           else (case iterate_items cl1 (pget run ''defaultDatasetId'') of
                   (IterRaises, cl2) \<Rightarrow> (Inr [], cl2)
                 | (IterYields items, cl2) \<Rightarrow> (Inr items, cl2))))"





section \<open>The Instagram pipeline: post URLs\<close>

text \<open>
  \<open>scrape_post_urls\<close> has no \<open>try\<close> of its own: an operation that raises on an item of an
  unexpected shape ends the call. These are \<open>.get\<close> on a value that is not a dictionary, the
  slice of \<open>latestComments\<close>, and the substring test on a URL that is not a string.
\<close>

definition bind_err :: "py_error + 'a \<Rightarrow> ('a \<Rightarrow> py_error + 'b) \<Rightarrow> py_error + 'b" where
  "bind_err m f = (case m of Inl e \<Rightarrow> Inl e | Inr x \<Rightarrow> f x)"

fun map_err :: "('a \<Rightarrow> py_error + 'b) \<Rightarrow> 'a list \<Rightarrow> py_error + 'b list" where
  \<comment> \<open>a loop that builds a list and stops at the first exception\<close>
  "map_err f [] = Inr []"
| "map_err f (x # xs) = bind_err (f x) (\<lambda>y. bind_err (map_err f xs) (\<lambda>ys. Inr (y # ys)))"

definition dget :: "pyval \<Rightarrow> string \<Rightarrow> py_error + pyval" where
  \<comment> \<open>\<open>v.get(k)\<close> on a value that should be a dictionary\<close>
  "dget v k = (case v of PDict d \<Rightarrow> Inr (pget d k) | _ \<Rightarrow> Inl AttributeError)"

definition or_else :: "pyval \<Rightarrow> py_error + pyval \<Rightarrow> py_error + pyval" where
  \<comment> \<open>\<open>a or b\<close>, where \<open>b\<close> is evaluated only when \<open>a\<close> is falsy\<close>
  "or_else a b = (if truthy a then Inr a else b)"

definition py_in :: "string \<Rightarrow> pyval \<Rightarrow> py_error + bool" where
  \<comment> \<open>\<open>needle in v\<close> for a string needle\<close>
  "py_in needle v = (case v of
       PStr s \<Rightarrow> Inr (sublist needle s)
     | PList xs \<Rightarrow> Inr (PStr needle \<in> set xs)
     | PDict d \<Rightarrow> Inr (needle \<in> fst ` set d)
     | _ \<Rightarrow> Inl TypeError)"

definition py_slice_to :: "int \<Rightarrow> 'a list \<Rightarrow> 'a list" where
  \<comment> \<open>\<open>xs[:n]\<close>\<close>
  "py_slice_to n xs = (if 0 \<le> n then take (nat n) xs else take (length xs - nat (- n)) xs)"

definition ig_post_url :: "pylib \<Rightarrow> pydict \<Rightarrow> py_error + pyval" where
  "ig_post_url L item =
     (let post_url = py_or (pget item ''url'') (pget item ''inputUrl'');
          shortcode = py_or (pget item ''shortCode'') (pget item ''id'')
      in if \<not> truthy post_url \<and> truthy shortcode
         then Inr (PStr (''https://www.instagram.com/p/'' @ py_str L shortcode @ ''/''))
         else if truthy post_url
         then bind_err (py_in ''instagram.com'' post_url)
                (\<lambda>inside. if \<not> inside
                   then Inr (PStr (''https://www.instagram.com/p/'' @ py_str L post_url @ ''/''))
                   else Inr post_url)
         else Inr post_url)"

definition base_record :: "pydict \<Rightarrow> pyval \<Rightarrow> pydict" where
  "base_record item post_url =
     [(''source_type'', PStr ''post_url''),
      (''source_value'', post_url),
      (''post_url'', post_url),
      (''post_username'', pget item ''ownerUsername''),
      (''post_full_name'', pget item ''ownerFullName''),
      (''post_caption'', pget item ''caption''),
      (''post_likes'', pget item ''likesCount''),
      (''post_comments_count'', pget item ''commentsCount''),
      (''post_date'', pget item ''timestamp''),
      (''post_type'', pget item ''type''),
      (''post_video_views'', pget item ''videoViewCount''),
      (''post_video_plays'', pget item ''videoPlayCount'')]"

definition ig_comments :: "bool \<Rightarrow> int \<Rightarrow> pydict \<Rightarrow> py_error + pyval list" where
  \<comment> \<open>\<open>if include_comments and "latestComments" in item:
        comments.extend(item.get("latestComments", [])[:max_comments])\<close>\<close>
  "ig_comments include_comments max_comments item =
     (if include_comments \<and> ''latestComments'' \<in> fst ` set item
      then (case pget_d item ''latestComments'' (PList []) of
              PList xs \<Rightarrow> Inr (py_slice_to max_comments xs)
            | PStr s \<Rightarrow> Inr (map (\<lambda>c. PStr [c]) (py_slice_to max_comments s))
            | _ \<Rightarrow> Inl TypeError)
      else Inr [])"

definition comment_record :: "pydict \<Rightarrow> pyval \<Rightarrow> py_error + pydict" where
  "comment_record base comment = (case comment of
       PDict c \<Rightarrow>
         (let owner = pget_d c ''owner'' (PDict []);
              user = pget_d c ''user'' (PDict [])
          in bind_err (bind_err (dget owner ''username'')
                         (\<lambda>a. or_else a (bind_err (dget user ''username'')
                            (\<lambda>b. or_else b (Inr (pget c ''ownerUsername''))))))
               (\<lambda>username.
                  bind_err (bind_err (dget owner ''full_name'')
                              (\<lambda>a. or_else a (dget user ''full_name'')))
                    (\<lambda>full_name.
                       Inr (py_merge base
                         [(''comment_id'', py_or (pget c ''id'') (pget c ''pk'')),
                          (''comment_text'', pget c ''text''),
                          (''comment_username'', username),
                          (''comment_full_name'', full_name),
                          (''comment_likes'',
                             py_or (pget c ''likesCount'') (pget c ''comment_like_count'')),
                          (''comment_date'',
                             py_or (pget c ''timestamp'') (pget c ''created_at'')),
                          (''comment_replies_count'',
                             py_or (pget c ''repliesCount'') (pget c ''child_comment_count''))]))))
     | _ \<Rightarrow> Inl AttributeError)"

definition no_comment_record :: "pydict \<Rightarrow> pydict" where
  "no_comment_record base =
     py_merge base
       [(''comment_id'', PNone),
        (''comment_text'', PNone),
        (''comment_username'', PNone),
        (''comment_full_name'', PNone),
        (''comment_likes'', PNone),
        (''comment_date'', PNone),
        (''comment_replies_count'', PNone)]"

definition item_records :: "pylib \<Rightarrow> bool \<Rightarrow> int \<Rightarrow> pydict \<Rightarrow> py_error + pydict list" where
  \<comment> \<open>the body of the loop over \<open>post_items\<close>\<close>
  "item_records L include_comments max_comments item =
     bind_err (ig_post_url L item)
       (\<lambda>post_url.
          let base = base_record item post_url in
          bind_err (ig_comments include_comments max_comments item)
            (\<lambda>comments.
               if comments \<noteq> [] then map_err (comment_record base) comments
               else Inr [no_comment_record base]))"

definition unified_records ::
  "pylib \<Rightarrow> bool \<Rightarrow> int \<Rightarrow> pydict list \<Rightarrow> py_error + pydict list" where
  "unified_records L include_comments max_comments post_items =
     bind_err (map_err (item_records L include_comments max_comments) post_items)
       (\<lambda>rs. Inr (concat rs))"

definition ig_key :: "string list" where
  "ig_key = [''post_url'', ''comment_id'']"

definition ig_scraper_actor :: string where
  "ig_scraper_actor = ''apify/instagram-scraper''"

definition post_urls_run_input :: "string list \<Rightarrow> pydict" where
  "post_urls_run_input post_urls =
     [(''directUrls'', PList (map PStr post_urls)),
      (''resultsType'', PStr ''posts''),
      (''resultsLimit'', PInt (int (length post_urls))),
      (''searchType'', PStr ''hashtag''),
      (''searchLimit'', PInt 1)]"

definition scrape_post_urls ::
  "pylib \<Rightarrow> client \<Rightarrow> string list \<Rightarrow> bool \<Rightarrow> int \<Rightarrow> (py_error + dataframe) \<times> client" where
  \<comment> \<open>the table that \<open>scrape_post_urls\<close> returns; without items it is the empty table\<close>
  "scrape_post_urls L cl post_urls include_comments max_comments =
     (case run_apify_actor cl ig_scraper_actor (post_urls_run_input post_urls) of
        (post_items, cl1) \<Rightarrow>
          (if post_items = [] then (Inr [], cl1)
           else (bind_err (unified_records L include_comments max_comments post_items)
                   (\<lambda>df. Inr (if has_column df ''comment_id''
                               then drop_duplicates ig_key df else df)),
                 cl1)))"

subsection \<open>The Instagram sentiment columns and the final table\<close>

definition detect_scraping_mode :: "dataframe \<Rightarrow> pyval" where
  "detect_scraping_mode df =
     (if has_column df ''source_type''
      then (case df of [] \<Rightarrow> PStr ''unknown'' | r # _ \<Rightarrow> cell r ''source_type'')
      else if has_column df ''comment_text'' \<and> has_column df ''profile_username''
      then PStr ''profile''
      else if has_column df ''all_comments_text'' \<and> has_column df ''comments_scraped_count''
      then PStr ''keyword''
      else if has_column df ''comment_text'' \<and> has_column df ''comment_id''
      then PStr ''post_url''
      else PStr ''unknown'')"

definition set_neutral :: "string \<Rightarrow> string \<Rightarrow> dataframe \<Rightarrow> dataframe" where
  \<comment> \<open>\<open>df[lc] = "NEUTRAL"; df[sc] = 0.0\<close>\<close>
  "set_neutral lc sc df =
     set_column sc (\<lambda>r. PFloat 0) (set_column lc (\<lambda>r. PStr ''NEUTRAL'') df)"

definition analyze_column ::
  "pylib \<Rightarrow> classifier \<Rightarrow> string \<Rightarrow> string \<Rightarrow> string \<Rightarrow> dataframe \<Rightarrow> dataframe" where
  \<comment> \<open>the texts of a column through \<open>analyze_text_batch\<close>, the results in two new columns\<close>
  "analyze_column L clf col lc sc df =
     set_sentiment lc sc
       (fst (analyze_text_batch L clf (map PStr (column_texts L col df)))) df"

definition analyze_instagram_data :: "pylib \<Rightarrow> classifier \<Rightarrow> dataframe \<Rightarrow> dataframe" where
  "analyze_instagram_data L clf df =
     (if df_empty df then df
      else (let scraping_mode = detect_scraping_mode df;
                df = (if has_column df ''post_caption''
                      then analyze_column L clf ''post_caption''
                             ''caption_sentiment_label'' ''caption_sentiment_score'' df
                      else set_neutral ''caption_sentiment_label'' ''caption_sentiment_score'' df)
            in if scraping_mode = PStr ''profile'' \<or> scraping_mode = PStr ''post_url''
               then (if has_column df ''comment_text''
                     then analyze_column L clf ''comment_text''
                            ''comment_sentiment_label'' ''comment_sentiment_score'' df
                     else set_neutral ''comment_sentiment_label'' ''comment_sentiment_score'' df)
               else if scraping_mode = PStr ''keyword''
               then (if has_column df ''all_comments_text''
                     then analyze_column L clf ''all_comments_text''
                            ''comments_sentiment_label'' ''comments_sentiment_score'' df
                     else set_neutral ''comments_sentiment_label'' ''comments_sentiment_score'' df)
               else df))"

definition ig_save_final_data ::
  "pylib \<Rightarrow> classifier option \<Rightarrow> dataframe \<Rightarrow> dataframe option" where
  \<comment> \<open>the table that \<open>save_final_data\<close> writes; the analyzer is \<open>None\<close> when its constructor
      raises\<close>
  "ig_save_final_data L analyzer df =
     (if df_empty df then None
      else Some (case analyzer of None \<Rightarrow> df | Some clf \<Rightarrow> analyze_instagram_data L clf df))"

section \<open>The Twitter pipeline: the final table\<close>

text \<open>
  \<open>scrape_from_user\<close> builds one dictionary per tweet id, with the keys \<open>tweet_id\<close>,
  \<open>profile_info\<close>, \<open>replies\<close> and \<open>retweeters\<close>; \<open>_process_and_save_final\<close> reads the four
  with \<open>tweet_data[...]\<close>.
\<close>

record tweet_data =
  tweet_id :: pyval
  profile_info :: pydict
  replies :: "pydict list"
  retweeters :: "pydict list"

definition reply_row :: "pyval \<Rightarrow> pydict \<Rightarrow> pyval \<Rightarrow> pyval \<Rightarrow> pyval \<Rightarrow> pydict \<Rightarrow> pydict" where
  "reply_row tid profile profile_link tweet_link main_tweet_text r =
     [(''tweet_id'', tid),
      (''interaction_type'', PStr ''reply''),
      (''username'', pget r ''author_username''),
      (''name'', pget r ''author_name''),
      (''verified'', pget r ''author_verified''),
      (''followers'', pget r ''author_followers''),
      (''text'', pget r ''text''),
      (''reply_url'', pget r ''tweet_url''),
      (''tweet_text'', main_tweet_text),
      (''profile_username'', pget profile ''username''),
      (''profile_fullname'', pget profile ''userFullName''),
      (''profile_followers'', pget profile ''totalFollowers''),
      (''profile_url'', profile_link),
      (''tweet_url'', tweet_link),
      (''retweet_count'', pget r ''retweet_count''),
      (''reply_count'', pget r ''reply_count''),
      (''like_count'', pget r ''like_count''),
      (''quote_count'', pget r ''quote_count''),
      (''created_at'', pget r ''created_at'')]"

definition retweeter_row ::
  "pyval \<Rightarrow> pydict \<Rightarrow> pyval \<Rightarrow> pyval \<Rightarrow> pyval \<Rightarrow> pydict \<Rightarrow> pydict" where
  "retweeter_row tid profile profile_link tweet_link main_tweet_text r =
     [(''tweet_id'', tid),
      (''interaction_type'', PStr ''retweeter''),
      (''username'', pget r ''userName''),
      (''name'', pget r ''name''),
      (''verified'', pget r ''isVerified''),
      (''followers'', pget r ''followers''),
      (''text'', PStr []),
      (''reply_url'', PStr []),
      (''tweet_text'', main_tweet_text),
      (''profile_username'', pget profile ''username''),
      (''profile_fullname'', pget profile ''userFullName''),
      (''profile_followers'', pget profile ''totalFollowers''),
      (''profile_url'', profile_link),
      (''tweet_url'', tweet_link),
      (''retweet_count'', PNone),
      (''reply_count'', PNone),
      (''like_count'', PNone),
      (''quote_count'', PNone),
      (''created_at'', PNone)]"

definition tweet_rows :: "tweet_data \<Rightarrow> py_error + pydict list" where
  \<comment> \<open>the body of the loop over \<open>data\<close>; \<open>profile.get\<close> raises when \<open>"user"\<close> is not a
      dictionary. The first reply is taken as the main tweet and gives no row.\<close>
  "tweet_rows td =
     (case pget_d (profile_info td) ''user'' (PDict []) of
        PDict profile \<Rightarrow>
          (let tid = tweet_id td;
               tweet_link = pget_d (profile_info td) ''tweet_url'' (PStr []);
               profile_link = pget_d profile ''url'' (PStr []);
               main_tweet_text =
                 (if replies td \<noteq> [] then pget_d (hd (replies td)) ''text'' (PStr [])
                  else pget_d (profile_info td) ''tweet_text'' (PStr []));
               replies_list = (if replies td \<noteq> [] then tl (replies td) else replies td)
           in Inr (map (reply_row tid profile profile_link tweet_link main_tweet_text)
                     replies_list
                 @ map (retweeter_row tid profile profile_link tweet_link main_tweet_text)
                     (retweeters td)))
      | _ \<Rightarrow> Inl AttributeError)"

fun assign_masked ::
  "string \<Rightarrow> (pydict \<Rightarrow> bool) \<Rightarrow> pyval list \<Rightarrow> dataframe \<Rightarrow> dataframe" where
  \<comment> \<open>\<open>df.loc[mask, c] = [v0, v1, ...]\<close>: the values go to the rows of the mask, in order\<close>
  "assign_masked c msk vs [] = []"
| "assign_masked c msk vs (r # rs) =
     (if msk r
      then (case vs of
              [] \<Rightarrow> r # assign_masked c msk vs rs
            | v # vs' \<Rightarrow> AList.update c v r # assign_masked c msk vs' rs)
      else r # assign_masked c msk vs rs)"

definition is_reply :: "pydict \<Rightarrow> bool" where
  \<comment> \<open>\<open>df["interaction_type"] == "reply"\<close> on one row\<close>
  "is_reply r = (cell r ''interaction_type'' = PStr ''reply'')"

definition analyze_twitter_data ::
  "pylib \<Rightarrow> classifier \<Rightarrow> dataframe \<Rightarrow> dataframe \<times> py_error option" where
  \<comment> \<open>The table is changed in place: the result is the table as the call leaves it and the
      exception it raised, if any (\<open>df["interaction_type"]\<close> raises \<open>KeyError\<close> on a table
      without the column).\<close>
  "analyze_twitter_data L clf df =
     (if df_empty df then (df, None)
      else (let df = (if has_column df ''tweet_text''
                      then analyze_column L clf ''tweet_text''
                             ''tweet_sentiment_label'' ''tweet_sentiment_score'' df
                      else set_neutral ''tweet_sentiment_label'' ''tweet_sentiment_score'' df)
            in if has_column df ''text''
               then (if \<not> has_column df ''interaction_type'' then (df, Some KeyError)
                     else (let reply_texts = column_texts L ''text'' (filter is_reply df)
                           in if reply_texts \<noteq> []
                              then (let reply_results =
                                          fst (analyze_text_batch L clf (map PStr reply_texts));
                                        df = set_neutral ''interaction_sentiment_label''
                                               ''interaction_sentiment_score'' df;
                                        df = assign_masked ''interaction_sentiment_label'' is_reply
                                               (map (\<lambda>s. PStr (label s)) reply_results) df;
                                        df = assign_masked ''interaction_sentiment_score'' is_reply
                                               (map (\<lambda>s. PFloat (score s)) reply_results) df
                                    in (df, None))
                              else (set_neutral ''interaction_sentiment_label''
                                      ''interaction_sentiment_score'' df, None)))
               else (set_neutral ''interaction_sentiment_label''
                       ''interaction_sentiment_score'' df, None)))"

definition tw_key :: "string list" where
  \<comment> \<open>tweet id and interaction identity: the kind of interaction and who interacted\<close>
  "tw_key = [''tweet_id'', ''interaction_type'', ''username'']"

definition tw_process_and_save_final ::
  "pylib \<Rightarrow> classifier option \<Rightarrow> tweet_data list \<Rightarrow> py_error + dataframe option" where
  \<comment> \<open>the table written to the final CSV, \<open>None\<close> when there is no row; the analyzer is
      \<open>None\<close> when its constructor raises\<close>
  "tw_process_and_save_final L analyzer data =
     bind_err (map_err tweet_rows data)
       (\<lambda>rs. let rows = concat rs in
          if rows = [] then Inr None
          else Inr (Some (case analyzer of
                            None \<Rightarrow> rows
                          | Some clf \<Rightarrow> fst (analyze_twitter_data L clf rows))))"

section \<open>The columns that the later steps assign\<close>

definition derived_cols :: "string list" where
  "derived_cols = emoji_cols @ total_cols @
     [''post_message_length'', ''comment_text_length'', ''post_engagement_total'',
      ''dominant_emotion'', ''positive_reactions'', ''negative_reactions'', ''sentiment_ratio'']"

definition fb_sentiment_cols :: "string list" where
  "fb_sentiment_cols = [''post_sentiment_label'', ''post_sentiment_score'',
     ''comment_sentiment_label'', ''comment_sentiment_score'']"

definition ig_sentiment_cols :: "string list" where
  "ig_sentiment_cols = [''caption_sentiment_label'', ''caption_sentiment_score'',
     ''comment_sentiment_label'', ''comment_sentiment_score'',
     ''comments_sentiment_label'', ''comments_sentiment_score'']"

definition tw_sentiment_cols :: "string list" where
  "tw_sentiment_cols = [''tweet_sentiment_label'', ''tweet_sentiment_score'',
     ''interaction_sentiment_label'', ''interaction_sentiment_score'']"

section \<open>The derived columns, row by row\<close>

text \<open>
  Every column assignment of \<open>_add_derived_columns\<close> computes the new cell of a row from
  cells of the same row. The functions below apply the same assignments to one row; the
  flags say whether the table had the three total columns. They are proved equal to the
  column-wise functions before they are used.
\<close>

definition coerce_emoji_row :: "pylib \<Rightarrow> string \<Rightarrow> pydict \<Rightarrow> pydict" where
  "coerce_emoji_row L c r = AList.update c (PInt (astype_int (fillna0 (to_numeric L (cell r c))))) r"

definition coerce_total_row :: "pylib \<Rightarrow> bool \<Rightarrow> string \<Rightarrow> pydict \<Rightarrow> pydict" where
  "coerce_total_row L present c r =
     AList.update c (if present then PFloat (fillna0 (to_numeric L (cell r c))) else PInt 0) r"

definition coerced_row :: "pylib \<Rightarrow> bool \<Rightarrow> bool \<Rightarrow> bool \<Rightarrow> pydict \<Rightarrow> pydict" where
  "coerced_row L hr hc hs r =
     coerce_total_row L hs ''post_total_shares''
       (coerce_total_row L hc ''post_total_comments''
         (coerce_total_row L hr ''post_total_reactions''
           (fold (coerce_emoji_row L) emoji_cols r)))"

definition derive_row :: "pylib \<Rightarrow> pydict \<Rightarrow> pydict" where
  "derive_row L r =
     (let r = AList.update ''post_message_length''
                (PInt (int (length (py_str L (cell r ''post_message''))))) r;
          r = AList.update ''comment_text_length''
                (PInt (int (length (py_str L (cell r ''comment_text''))))) r;
          r = AList.update ''post_engagement_total''
                (py_add (py_add (cell r ''post_total_reactions'') (cell r ''post_total_comments''))
                        (cell r ''post_total_shares'')) r;
          r = AList.update ''dominant_emotion''
                (PStr (py_replace ''emoji_'' [] (idxmax emoji_cols r))) r;
          r = AList.update ''positive_reactions''
                (py_add (py_add (py_add (py_add (cell r ''emoji_like'') (cell r ''emoji_love''))
                                        (cell r ''emoji_haha''))
                                (cell r ''emoji_wow''))
                        (cell r ''emoji_care'')) r;
          r = AList.update ''negative_reactions''
                (py_add (cell r ''emoji_sad'') (cell r ''emoji_angry'')) r
      in r)"

definition ratio_value :: "pydict \<Rightarrow> pyval" where
  \<comment> \<open>the value of the lambda of \<open>sentiment_ratio\<close> on a row whose cells are numbers\<close>
  "ratio_value x =
     (case (num_val (cell x ''positive_reactions''), num_val (cell x ''post_total_reactions'')) of
        (Some p, Some t) \<Rightarrow> (if 0 < t then PFloat (p / t) else PInt 0)
      | _ \<Rightarrow> PInt 0)"

definition derived_row :: "pylib \<Rightarrow> bool \<Rightarrow> bool \<Rightarrow> bool \<Rightarrow> pydict \<Rightarrow> pydict" where
  "derived_row L hr hc hs r =
     (let x = derive_row L (coerced_row L hr hc hs r)
      in AList.update ''sentiment_ratio'' (ratio_value x) x)"

section \<open>Concrete inputs\<close>

text \<open>The inputs at which the theorems below are instantiated.\<close>

definition lib0 :: pylib where
  "lib0 = \<lparr>str_other = (\<lambda>v. []), numeric_other = (\<lambda>v. None)\<rparr>"

definition post_two_comments :: fb_post where
  "post_two_comments =
     \<lparr>post_fields = [(''post_id'', PStr ''p1''), (''message'', PStr ''hello  world''),
                      (''emoji_like'', PInt 3), (''emoji_love'', PInt 5), (''emoji_sad'', PInt 1),
                      (''total_reactions'', PInt 9), (''total_comments'', PInt 2),
                      (''total_shares'', PInt 1)],
      post_comments = [[(''comment_id'', PStr ''c1''), (''text'', PStr ''nice'')],
                       [(''comment_id'', PStr ''c2''), (''text'', PStr ''bad'')]]\<rparr>"

definition post_no_comments :: fb_post where
  "post_no_comments =
     \<lparr>post_fields = [(''post_id'', PStr ''p2''), (''message'', PStr ''alone'')],
      post_comments = []\<rparr>"










section \<open>Dictionaries and rows: basic facts\<close>

lemma map_of_py_merge: "map_of (py_merge a b) = map_of a ++ map_of (rev b)"
  unfolding py_merge_def
proof (induction b arbitrary: a)
  case Nil
  show ?case by simp
next
  case (Cons x xs)
  obtain k v where x: "x = (k, v)" by (cases x)
  have "map_of (fold (\<lambda>(k, v). AList.update k v) xs (AList.update k v a))
      = map_of (AList.update k v a) ++ map_of (rev xs)"
    by (rule Cons.IH)
  also have "\<dots> = map_of a ++ (map_of [(k, v)] ++ map_of (rev xs))"
    by (simp add: update_conv')
  finally show ?case by (simp add: x)
qed

lemma cell_py_merge:
  "cell (py_merge a b) k = (if k \<in> fst ` set b then cell (rev b) k else cell a k)"
proof (cases "map_of (rev b) k")
  case None
  then have "k \<notin> fst ` set b" by (simp add: map_of_eq_None_iff)
  then show ?thesis using None by (simp add: cell_def pget_def map_of_py_merge map_add_def)
next
  case (Some v)
  then have "k \<in> fst ` set b" by (metis map_of_eq_None_iff option.distinct(1) set_rev)
  then show ?thesis using Some by (simp add: cell_def pget_def map_of_py_merge map_add_def)
qed

lemma map_of_rev_distinct: "distinct (map fst b) \<Longrightarrow> map_of (rev b) = map_of b"
proof (induction b)
  case Nil
  show ?case by simp
next
  case (Cons x xs)
  obtain k v where x: "x = (k, v)" by (cases x)
  have k: "map_of xs k = None" using Cons.prems by (simp add: x map_of_eq_None_iff)
  have "map_of (rev (x # xs)) = map_of [(k, v)] ++ map_of xs"
    using Cons by (simp add: x)
  also have "\<dots> = (map_of xs)(k \<mapsto> v)"
    using k by (auto simp: map_add_def fun_eq_iff split: option.splits)
  finally show ?case by (simp add: x)
qed

lemma cell_rev_distinct: "distinct (map fst b) \<Longrightarrow> cell (rev b) k = cell b k"
  by (simp add: cell_def pget_def map_of_rev_distinct)

lemma map_of_clean_row_field:
  "map_of (clean_row_field L f row) k =
     (if k = f \<and> (\<exists>v. map_of row f = Some v \<and> truthy v)
      then Some (PStr (clean_row_text L (the (map_of row f)))) else map_of row k)"
  by (auto simp: clean_row_field_def update_conv' split: option.splits)

lemma cell_clean_row_field:
  "cell (clean_row_field L f row) k =
     (if k = f \<and> k \<in> fst ` set row \<and> truthy (cell row k)
      then PStr (clean_row_text L (cell row k)) else cell row k)"
  apply (auto simp: cell_def pget_def map_of_clean_row_field split: option.splits)
  apply (metis map_of_eq_None_iff option.distinct(1))+
  done

lemma dom_clean_row_field: "fst ` set (clean_row_field L f row) = fst ` set row"
  by (auto simp: clean_row_field_def dom_update split: option.splits dest: map_of_SomeD intro: rev_image_eqI)

lemma cell_clean_row:
  "cell (clean_row L row) k =
     (if (k = ''post_message'' \<or> k = ''comment_text'') \<and> k \<in> fst ` set row \<and> truthy (cell row k)
      then PStr (clean_row_text L (cell row k)) else cell row k)"
  by (auto simp: clean_row_def cell_clean_row_field dom_clean_row_field)


lemma dom_py_merge: "fst ` set (py_merge a b) = fst ` set a \<union> fst ` set b"
  unfolding py_merge_def
proof (induction b arbitrary: a)
  case Nil
  show ?case by simp
next
  case (Cons x xs)
  obtain k v where x: "x = (k, v)" by (cases x)
  have "fst ` set (fold (\<lambda>(k, v). AList.update k v) xs (AList.update k v a))
      = fst ` set (AList.update k v a) \<union> fst ` set xs"
    by (rule Cons.IH)
  also have "\<dots> = ({k} \<union> fst ` set a) \<union> fst ` set xs"
    by (simp only: dom_update)
  finally show ?case unfolding x by simp
qed

lemma distinct_flatten_comment: "distinct (map fst (flatten_comment c))"
  by (simp add: flatten_comment_def)

lemma distinct_empty_comment: "distinct (map fst empty_comment)"
  by (simp add: empty_comment_def)

lemma post_message_in_flatten_post: "''post_message'' \<in> fst ` set (flatten_post post)"
  by (simp add: flatten_post_def Let_def)

lemma comment_text_in_flatten_comment: "''comment_text'' \<in> fst ` set (flatten_comment c)"
  by (simp add: flatten_comment_def)

lemma comment_text_in_empty_comment: "''comment_text'' \<in> fst ` set empty_comment"
  by (simp add: empty_comment_def)

lemma cell_merged_row:
  assumes "distinct (map fst c)" and "''comment_text'' \<in> fst ` set c"
  shows "cell (clean_row L (py_merge (flatten_post post) c)) k =
     (let v = (if k \<in> fst ` set c then cell c k else cell (flatten_post post) k)
      in if (k = ''post_message'' \<or> k = ''comment_text'') \<and> truthy v
         then PStr (clean_row_text L v) else v)"
  using assms post_message_in_flatten_post [of post]
  by (auto simp: cell_clean_row cell_py_merge cell_rev_distinct dom_py_merge Let_def)

lemma length_post_rows: "length (post_rows L post) = max 1 (length (post_comments post))"
  by (cases "post_comments post") (simp_all add: post_rows_def)

lemma length_flatten_rows:
  "length (flatten_rows L data) = sum_list (map (\<lambda>post. max 1 (length (post_comments post))) data)"
  by (induction data) (simp_all add: flatten_rows_def length_post_rows)

section \<open>One row per post and comment\<close>

text \<open>
  Claim C3, as the code has it. The flattening of \<open>_process_and_save_final\<close> produces
  exactly one row per (post, comment) pair. A post with comments gives one row per comment, in
  order. Row \<open>i\<close> is \<open>_clean_row\<close> of the flattened post merged with the flattened comment
  \<open>i\<close>: its cells are those of the flattened comment and, for the other columns, those of the
  flattened post, except that a truthy \<open>post_message\<close> or \<open>comment_text\<close> is replaced by
  its text with the whitespace collapsed and the NUL characters removed. A post without
  comments gives exactly one row, whose comment cells are the defaults of \<open>_empty_comment\<close>.
  Hence the number of rows before deduplication is the sum over the posts of
  \<open>max(1, number of comments)\<close>.
\<close>

theorem flatten_one_row_per_pair:
  "length (flatten_rows L data) = sum_list (map (\<lambda>post. max 1 (length (post_comments post))) data)
   \<and> flatten_rows L data = concat (map (post_rows L) data)
   \<and> length (post_rows L post) = max 1 (length (post_comments post))
   \<and> (\<forall>i < length (post_comments post). \<forall>k.
        cell (post_rows L post ! i) k =
          (let c = flatten_comment (post_comments post ! i);
               v = (if k \<in> fst ` set c then cell c k else cell (flatten_post post) k)
           in if (k = ''post_message'' \<or> k = ''comment_text'') \<and> truthy v
              then PStr (clean_row_text L v) else v))
   \<and> (post_comments post = [] \<longrightarrow>
        (\<forall>k. cell (post_rows L post ! 0) k =
          (if k \<in> fst ` set empty_comment then cell empty_comment k
           else if k = ''post_message'' \<and> truthy (cell (flatten_post post) k)
                then PStr (clean_row_text L (cell (flatten_post post) k))
                else cell (flatten_post post) k)))"
proof (intro conjI)
  show "length (flatten_rows L data) = sum_list (map (\<lambda>post. max 1 (length (post_comments post))) data)"
    by (rule length_flatten_rows)
  show "flatten_rows L data = concat (map (post_rows L) data)"
    by (simp add: flatten_rows_def)
  show "length (post_rows L post) = max 1 (length (post_comments post))"
    by (rule length_post_rows)
  show "\<forall>i < length (post_comments post). \<forall>k.
        cell (post_rows L post ! i) k =
          (let c = flatten_comment (post_comments post ! i);
               v = (if k \<in> fst ` set c then cell c k else cell (flatten_post post) k)
           in if (k = ''post_message'' \<or> k = ''comment_text'') \<and> truthy v
              then PStr (clean_row_text L v) else v)"
  proof (intro allI impI)
    fix i k
    assume i: "i < length (post_comments post)"
    then have ne: "post_comments post \<noteq> []" by auto
    have "post_rows L post ! i =
        clean_row L (py_merge (flatten_post post) (flatten_comment (post_comments post ! i)))"
      using i ne by (simp add: post_rows_def)
    then show "cell (post_rows L post ! i) k =
          (let c = flatten_comment (post_comments post ! i);
               v = (if k \<in> fst ` set c then cell c k else cell (flatten_post post) k)
           in if (k = ''post_message'' \<or> k = ''comment_text'') \<and> truthy v
              then PStr (clean_row_text L v) else v)"
      using cell_merged_row [OF distinct_flatten_comment comment_text_in_flatten_comment,
          of L post "post_comments post ! i" k]
      by (simp add: Let_def)
  qed
  show "post_comments post = [] \<longrightarrow>
        (\<forall>k. cell (post_rows L post ! 0) k =
          (if k \<in> fst ` set empty_comment then cell empty_comment k
           else if k = ''post_message'' \<and> truthy (cell (flatten_post post) k)
                then PStr (clean_row_text L (cell (flatten_post post) k))
                else cell (flatten_post post) k))"
  proof (intro allI impI)
    fix k
    assume e: "post_comments post = []"
    have r: "post_rows L post ! 0 = clean_row L (py_merge (flatten_post post) empty_comment)"
      using e by (simp add: post_rows_def)
    have ct: "\<not> truthy (cell empty_comment ''comment_text'')"
      by (simp add: empty_comment_def cell_def pget_def)
    have pm: "''post_message'' \<notin> fst ` set empty_comment"
      by (simp add: empty_comment_def)
    show "cell (post_rows L post ! 0) k =
          (if k \<in> fst ` set empty_comment then cell empty_comment k
           else if k = ''post_message'' \<and> truthy (cell (flatten_post post) k)
                then PStr (clean_row_text L (cell (flatten_post post) k))
                else cell (flatten_post post) k)"
      unfolding r
      using cell_merged_row [OF distinct_empty_comment comment_text_in_empty_comment, of L post k]
        ct pm comment_text_in_empty_comment
      by (auto simp: Let_def)
  qed
qed

theorem flatten_one_row_per_pair_witness:
  "length (flatten_rows lib0 [post_two_comments, post_no_comments]) = 3
   \<and> (1::nat) < length (post_comments post_two_comments)
   \<and> cell (post_rows lib0 post_two_comments ! 1) ''comment_id'' = PStr ''c2''
   \<and> cell (post_rows lib0 post_two_comments ! 1) ''post_id'' = PStr ''p1''
   \<and> post_comments post_no_comments = []
   \<and> cell (post_rows lib0 post_no_comments ! 0) ''comment_id'' = PStr []"
proof -
  note t1 = flatten_one_row_per_pair [of lib0 "[post_two_comments, post_no_comments]"
      post_two_comments]
  note t2 = flatten_one_row_per_pair [of lib0 "[post_two_comments, post_no_comments]"
      post_no_comments]
  have len: "(1::nat) < length (post_comments post_two_comments)"
    by (simp add: post_two_comments_def)
  have emp: "post_comments post_no_comments = []"
    by (simp add: post_no_comments_def)
  have a: "length (flatten_rows lib0 [post_two_comments, post_no_comments]) = 3"
    using t1 [THEN conjunct1] by (simp add: post_two_comments_def post_no_comments_def)
  have b: "cell (post_rows lib0 post_two_comments ! 1) k =
          (let c = flatten_comment (post_comments post_two_comments ! 1);
               v = (if k \<in> fst ` set c then cell c k else cell (flatten_post post_two_comments) k)
           in if (k = ''post_message'' \<or> k = ''comment_text'') \<and> truthy v
              then PStr (clean_row_text lib0 v) else v)" for k
    using t1 [THEN conjunct2, THEN conjunct2, THEN conjunct2, THEN conjunct1] len by blast
  have c: "cell (post_rows lib0 post_no_comments ! 0) ''comment_id'' = PStr []"
    using t2 [THEN conjunct2, THEN conjunct2, THEN conjunct2, THEN conjunct2] emp
    by (simp add: empty_comment_def cell_def pget_def)
  have d: "cell (post_rows lib0 post_two_comments ! 1) ''comment_id'' = PStr ''c2''"
    unfolding b [of "''comment_id''"]
    by (simp add: post_two_comments_def flatten_comment_def cell_def pget_def pget_d_def)
  have e: "cell (post_rows lib0 post_two_comments ! 1) ''post_id'' = PStr ''p1''"
    unfolding b [of "''post_id''"]
    by (simp add: post_two_comments_def flatten_comment_def flatten_post_def cell_def pget_def
        pget_d_def)
  show ?thesis using a len d e emp c by simp
qed

text \<open>
  Claim C3 says that a row is the post's flattened fields merged with the comment's flattened
  fields. The row is not that merge: \<open>_clean_row\<close> rewrites the two text cells after the
  merge. For the post with the message \<open>hello  world\<close> (two spaces) the merge holds the
  message as it came, and the row holds \<open>hello world\<close>.
\<close>

theorem flatten_row_differs_from_merge:
  "cell (py_merge (flatten_post post_two_comments)
           (flatten_comment (post_comments post_two_comments ! 0))) ''post_message''
     = PStr ''hello  world''
   \<and> cell (post_rows lib0 post_two_comments ! 0) ''post_message'' = PStr ''hello world''
   \<and> post_rows lib0 post_two_comments ! 0
       \<noteq> py_merge (flatten_post post_two_comments)
           (flatten_comment (post_comments post_two_comments ! 0))"
proof -
  have a: "cell (py_merge (flatten_post post_two_comments)
           (flatten_comment (post_comments post_two_comments ! 0))) ''post_message''
     = PStr ''hello  world''"
    by code_simp
  have b: "cell (post_rows lib0 post_two_comments ! 0) ''post_message'' = PStr ''hello world''"
    by code_simp
  have "cell (post_rows lib0 post_two_comments ! 0) ''post_message''
      \<noteq> cell (py_merge (flatten_post post_two_comments)
           (flatten_comment (post_comments post_two_comments ! 0))) ''post_message''"
    unfolding a b by simp
  then have c: "post_rows lib0 post_two_comments ! 0
       \<noteq> py_merge (flatten_post post_two_comments)
           (flatten_comment (post_comments post_two_comments ! 0))"
    by auto
  show ?thesis using a b c by simp
qed

section \<open>Tables: keys and deduplication\<close>

lemma cell_update: "cell (AList.update c v r) k = (if k = c then v else cell r k)"
  by (simp add: cell_def pget_def update_conv')

lemma row_key_update: "c \<notin> set cols \<Longrightarrow> row_key cols (AList.update c v r) = row_key cols r"
  by (auto simp: row_key_def cell_update)

lemma length_set_column: "length (set_column c f df) = length df"
  by (simp add: set_column_def)

lemma length_set_column_list:
  "length vs = length df \<Longrightarrow> length (set_column_list c vs df) = length df"
  by (simp add: set_column_list_def)

lemma keys_set_column:
  "c \<notin> set cols \<Longrightarrow> map (row_key cols) (set_column c f df) = map (row_key cols) df"
  by (simp add: set_column_def row_key_update)

lemma keys_set_column_list:
  assumes "c \<notin> set cols" and "length vs = length df"
  shows "map (row_key cols) (set_column_list c vs df) = map (row_key cols) df"
proof -
  have "map (row_key cols) (set_column_list c vs df) = map (\<lambda>(r, v). row_key cols r) (zip df vs)"
    using assms(1) by (auto simp: set_column_list_def row_key_update)
  also have "\<dots> = map (row_key cols) (map fst (zip df vs))"
    by (simp add: case_prod_unfold)
  also have "\<dots> = map (row_key cols) df"
    using assms(2) by simp
  finally show ?thesis .
qed

lemma keys_drop_dups_from:
  "set (map (row_key cols) (drop_dups_from cols seen rs)) = set (map (row_key cols) rs) - set seen"
  by (induction rs arbitrary: seen) auto

lemma distinct_drop_dups_from:
  "distinct (map (row_key cols) (drop_dups_from cols seen rs))"
  by (induction rs arbitrary: seen) (auto simp: keys_drop_dups_from simp del: set_map)

lemma find_drop_dups_from:
  "find (\<lambda>r. row_key cols r = k) (drop_dups_from cols seen rs) =
     (if k \<in> set seen then None else find (\<lambda>r. row_key cols r = k) rs)"
proof (induction rs arbitrary: seen)
  case Nil
  show ?case by simp
next
  case (Cons r rs)
  show ?case by (auto simp: Cons.IH)
qed

lemma distinct_drop_duplicates: "distinct (map (row_key cols) (drop_duplicates cols df))"
  by (simp add: drop_duplicates_def distinct_drop_dups_from)

lemma keys_drop_duplicates:
  "set (map (row_key cols) (drop_duplicates cols df)) = set (map (row_key cols) df)"
  by (simp add: drop_duplicates_def keys_drop_dups_from del: set_map)

lemma find_drop_duplicates:
  "find (\<lambda>r. row_key cols r = k) (drop_duplicates cols df) = find (\<lambda>r. row_key cols r = k) df"
  by (simp add: drop_duplicates_def find_drop_dups_from)

lemma drop_dups_from_sublist: "subseq (drop_dups_from cols seen rs) rs"
  by (induction rs arbitrary: seen) auto

lemma drop_duplicates_subseq: "subseq (drop_duplicates cols df) df"
  by (simp add: drop_duplicates_def drop_dups_from_sublist)

section \<open>The later steps keep the other columns\<close>

lemma keys_fold_coerce_emoji:
  "set cs \<inter> set cols = {} \<Longrightarrow>
     map (row_key cols) (fold (coerce_emoji L) cs df) = map (row_key cols) df"
  by (induction cs arbitrary: df) (auto simp: coerce_emoji_def keys_set_column)

lemma keys_fold_coerce_total:
  "set cs \<inter> set cols = {} \<Longrightarrow>
     map (row_key cols) (fold (coerce_total L) cs df) = map (row_key cols) df"
  by (induction cs arbitrary: df) (auto simp: coerce_total_def keys_set_column)

lemma length_fold_coerce_emoji: "length (fold (coerce_emoji L) cs df) = length df"
  by (induction cs arbitrary: df) (auto simp: coerce_emoji_def length_set_column)

lemma length_fold_coerce_total: "length (fold (coerce_total L) cs df) = length df"
  by (induction cs arbitrary: df) (auto simp: coerce_total_def length_set_column)

lemma length_apply_rows: "apply_rows f df = Inr vs \<Longrightarrow> length vs = length df"
  by (induction df arbitrary: vs) (auto split: sum.splits)

lemma keys_derive_columns:
  "set derived_cols \<inter> set cols = {} \<Longrightarrow>
     map (row_key cols) (derive_columns L df) = map (row_key cols) df"
  by (simp add: derive_columns_def Let_def keys_set_column derived_cols_def)

lemma length_derive_columns: "length (derive_columns L df) = length df"
  by (simp add: derive_columns_def Let_def length_set_column)

lemma keys_add_derived_columns:
  assumes "add_derived_columns L df = Inr df'" and "set derived_cols \<inter> set cols = {}"
  shows "map (row_key cols) df' = map (row_key cols) df"
proof -
  let ?d1 = "fold (coerce_total L) total_cols (fold (coerce_emoji L) emoji_cols df)"
  obtain vs where vs: "apply_rows sentiment_ratio (derive_columns L ?d1) = Inr vs"
    and df': "df' = set_column_list ''sentiment_ratio'' vs (derive_columns L ?d1)"
    using assms(1) by (auto simp: add_derived_columns_def Let_def split: if_splits sum.splits)
  have len: "length vs = length (derive_columns L ?d1)"
    using vs by (rule length_apply_rows)
  have e: "set emoji_cols \<inter> set cols = {}" and t: "set total_cols \<inter> set cols = {}"
    and s: "''sentiment_ratio'' \<notin> set cols"
    using assms(2) by (auto simp: derived_cols_def)
  show ?thesis
    unfolding df'
    by (simp add: keys_set_column_list [OF s len] keys_derive_columns [OF assms(2)]
        keys_fold_coerce_total [OF t] keys_fold_coerce_emoji [OF e])
qed

lemma length_fb_analyze_column: "length (fst (fb_analyze_column clf texts)) = length texts"
  by (simp add: fb_analyze_column_def Let_def)

lemma keys_set_sentiment:
  assumes "lc \<notin> set cols" and "sc \<notin> set cols" and "length results = length df"
  shows "map (row_key cols) (set_sentiment lc sc results df) = map (row_key cols) df"
  using assms
  by (simp add: set_sentiment_def keys_set_column_list length_set_column_list)

lemma length_set_sentiment:
  "length results = length df \<Longrightarrow> length (set_sentiment lc sc results df) = length df"
  by (simp add: set_sentiment_def length_set_column_list)

lemma keys_analyze_posts_and_comments:
  assumes "set fb_sentiment_cols \<inter> set cols = {}"
  shows "map (row_key cols) (fst (analyze_posts_and_comments L clf df pc cc)) = map (row_key cols) df"
  using assms
  by (auto simp: analyze_posts_and_comments_def Let_def fb_sentiment_cols_def keys_set_sentiment
      length_set_sentiment length_fb_analyze_column column_texts_def)

section \<open>Deduplication in the pipelines\<close>

lemma keys_clean_dataframe:
  "set text_cols \<inter> set cols = {} \<Longrightarrow>
     map (row_key cols) (clean_dataframe L df) = map (row_key cols) df"
proof -
  have "set cs \<inter> set cols = {} \<Longrightarrow>
      map (row_key cols) (fold (clean_column L) cs df) = map (row_key cols) df" for cs
    by (induction cs arbitrary: df) (auto simp: clean_column_def keys_set_column)
  then show "set text_cols \<inter> set cols = {} \<Longrightarrow>
     map (row_key cols) (clean_dataframe L df) = map (row_key cols) df"
    by (simp add: clean_dataframe_def)
qed

lemma comment_record_has_id:
  "comment_record base c = Inr r \<Longrightarrow> ''comment_id'' \<in> fst ` set r"
  by (auto simp: comment_record_def bind_err_def Let_def dom_py_merge
      split: pyval.splits sum.splits)

lemma no_comment_record_has_id: "''comment_id'' \<in> fst ` set (no_comment_record base)"
  by (simp add: no_comment_record_def dom_py_merge)

lemma map_err_Inr_set:
  "map_err f xs = Inr ys \<Longrightarrow> y \<in> set ys \<Longrightarrow> \<exists>x \<in> set xs. f x = Inr y"
proof (induction xs arbitrary: ys)
  case Nil
  then show ?case by simp
next
  case (Cons x xs)
  from Cons.prems(1) obtain z zs where z: "f x = Inr z" and zs: "map_err f xs = Inr zs"
    and ys: "ys = z # zs"
    by (auto simp: bind_err_def split: sum.splits)
  show ?case
  proof (cases "y = z")
    case True
    then show ?thesis using z by simp
  next
    case False
    then have "y \<in> set zs" using Cons.prems(2) ys by simp
    then show ?thesis using Cons.IH [OF zs] by auto
  qed
qed

lemma item_records_have_id:
  assumes "item_records L inc maxc item = Inr rs" and "r \<in> set rs"
  shows "''comment_id'' \<in> fst ` set r"
proof (cases "ig_post_url L item")
  case (Inl e)
  then show ?thesis using assms(1) by (simp add: item_records_def bind_err_def)
next
  case (Inr post_url)
  show ?thesis
  proof (cases "ig_comments inc maxc item")
    case (Inl e)
    then show ?thesis using assms(1) Inr by (simp add: item_records_def bind_err_def Let_def)
  next
    case comments: (Inr comments)
    show ?thesis
    proof (cases "comments = []")
      case True
      then have "rs = [no_comment_record (base_record item post_url)]"
        using assms(1) Inr comments by (simp add: item_records_def bind_err_def Let_def)
      then show ?thesis using assms(2) no_comment_record_has_id by simp
    next
      case False
      then have "map_err (comment_record (base_record item post_url)) comments = Inr rs"
        using assms(1) Inr comments by (simp add: item_records_def bind_err_def Let_def)
      then have "\<exists>c \<in> set comments. comment_record (base_record item post_url) c = Inr r"
        using assms(2) by (rule map_err_Inr_set)
      then obtain c where "comment_record (base_record item post_url) c = Inr r" ..
      then show ?thesis by (rule comment_record_has_id)
    qed
  qed
qed

lemma unified_records_have_id:
  assumes "unified_records L inc maxc items = Inr recs" and "r \<in> set recs"
  shows "''comment_id'' \<in> fst ` set r"
proof (cases "map_err (item_records L inc maxc) items")
  case (Inl e)
  then show ?thesis using assms(1) by (simp add: unified_records_def bind_err_def)
next
  case (Inr rss)
  then have recs: "recs = concat rss"
    using assms(1) by (simp add: unified_records_def bind_err_def)
  then obtain rs where rs: "rs \<in> set rss" and r: "r \<in> set rs"
    using assms(2) by auto
  have "\<exists>item \<in> set items. item_records L inc maxc item = Inr rs"
    using Inr rs by (rule map_err_Inr_set)
  then obtain item where "item_records L inc maxc item = Inr rs" ..
  then show ?thesis using r by (rule item_records_have_id)
qed

lemma has_column_iff: "has_column df c \<longleftrightarrow> (\<exists>r \<in> set df. c \<in> fst ` set r)"
  by (auto simp: has_column_def)

lemma scrape_post_urls_table:
  assumes "scrape_post_urls L cl post_urls inc maxc = (Inr tbl, cl')"
  shows "\<exists>recs. unified_records L inc maxc
            (fst (run_apify_actor cl ig_scraper_actor (post_urls_run_input post_urls))) = Inr recs
          \<and> tbl = drop_duplicates ig_key recs"
proof -
  obtain items cl1 where
    run: "run_apify_actor cl ig_scraper_actor (post_urls_run_input post_urls) = (items, cl1)"
    by (cases "run_apify_actor cl ig_scraper_actor (post_urls_run_input post_urls)")
  show ?thesis
  proof (cases "items = []")
    case True
    then have "tbl = []"
      using assms run by (simp add: scrape_post_urls_def)
    then show ?thesis
      using True run by (simp add: unified_records_def bind_err_def drop_duplicates_def)
  next
    case False
    have b: "bind_err (unified_records L inc maxc items)
          (\<lambda>df. Inr (if has_column df ''comment_id'' then drop_duplicates ig_key df else df))
        = Inr tbl"
      using assms run False by (simp add: scrape_post_urls_def)
    then obtain recs where u: "unified_records L inc maxc items = Inr recs"
      and tbl: "tbl = (if has_column recs ''comment_id'' then drop_duplicates ig_key recs else recs)"
      by (cases "unified_records L inc maxc items") (auto simp: bind_err_def)
    have "recs = []" if "\<not> has_column recs ''comment_id''"
    proof (rule ccontr)
      assume "recs \<noteq> []"
      then obtain r where r: "r \<in> set recs" by (cases recs) auto
      then have "''comment_id'' \<in> fst ` set r"
        using u unified_records_have_id by blast
      then show False using that r by (auto simp: has_column_iff)
    qed
    then have "tbl = drop_duplicates ig_key recs"
      using tbl by (auto simp: drop_duplicates_def)
    then show ?thesis using u run by simp
  qed
qed

lemma length_analyze_text_batch: "length (fst (analyze_text_batch L clf texts)) = length texts"
  by (simp add: analyze_text_batch_def Let_def)

lemma keys_analyze_column:
  "lc \<notin> set cols \<Longrightarrow> sc \<notin> set cols \<Longrightarrow>
     map (row_key cols) (analyze_column L clf col lc sc df) = map (row_key cols) df"
  by (simp add: analyze_column_def keys_set_sentiment length_analyze_text_batch column_texts_def)

lemma keys_set_neutral:
  "lc \<notin> set cols \<Longrightarrow> sc \<notin> set cols \<Longrightarrow>
     map (row_key cols) (set_neutral lc sc df) = map (row_key cols) df"
  by (simp add: set_neutral_def keys_set_column)

lemma keys_analyze_instagram_data:
  assumes "set ig_sentiment_cols \<inter> set cols = {}"
  shows "map (row_key cols) (analyze_instagram_data L clf df) = map (row_key cols) df"
proof -
  have n: "''caption_sentiment_label'' \<notin> set cols" "''caption_sentiment_score'' \<notin> set cols"
    "''comment_sentiment_label'' \<notin> set cols" "''comment_sentiment_score'' \<notin> set cols"
    "''comments_sentiment_label'' \<notin> set cols" "''comments_sentiment_score'' \<notin> set cols"
    using assms by (auto simp: ig_sentiment_cols_def)
  show ?thesis
    by (simp add: analyze_instagram_data_def Let_def keys_analyze_column keys_set_neutral n)
qed

section \<open>The actor helpers: basic facts\<close>




















text \<open>
  The Twitter helper reads \<open>run.get("defaultDatasetId")\<close> between its two \<open>try\<close> blocks.
  When the call returns \<open>None\<close> the helper raises \<open>AttributeError\<close>; the Facebook helper
  tests \<open>not run\<close> and the Instagram helper has the expression inside its \<open>try\<close>.
\<close>

lemma run_actor_none_run:
  "fst (actor_call cl a ri) = CallReturns None \<Longrightarrow>
     fst (run_actor_and_get_items cl a ri) = Inl AttributeError"
  by (auto simp: run_actor_and_get_items_def split: prod.splits)








section \<open>Failures of the scraping service\<close>






section \<open>Attempts per invocation\<close>





end
